theory Spec2Isabelle
  imports Main
begin

section \<open>JSON documents\<close>

text \<open>
  Both \<^verbatim>\<open>main.py\<close> and \<^verbatim>\<open>server.py\<close> hand a Python dictionary to
  \<^verbatim>\<open>json.dumps\<close>. The model returns the document that is serialised: objects keep
  the insertion order of their keys, as Python dictionaries and \<^verbatim>\<open>json.dumps\<close> do.
  \<open>JDec m e\<close> is the decimal number \<open>m * 10 ^ e\<close>.
\<close>

datatype json =
    JNull
  | JBool bool
  | JInt int
  | JDec int int
  | JStr string
  | JArr "json list"
  | JObj "(string \<times> json) list"

fun keys :: "json \<Rightarrow> string list" where
  "keys (JObj kvs) = map fst kvs"
| "keys _ = []"

fun get :: "string \<Rightarrow> json \<Rightarrow> json option" where
  "get k (JObj kvs) = map_of kvs k"
| "get k _ = None"

section \<open>Exceptions\<close>

text \<open>
  Python's exception hierarchy as far as the handlers of the source tell its classes apart:
  \<^verbatim>\<open>ValueError\<close> and \<^verbatim>\<open>NameError\<close> are subclasses of \<^verbatim>\<open>Exception\<close>, and so is
  whatever the data library raises on a failed fetch (\<open>LibraryError\<close>);
  \<^verbatim>\<open>KeyboardInterrupt\<close> and \<^verbatim>\<open>SystemExit\<close> derive from \<^verbatim>\<open>BaseException\<close> only.
  The string carried is the exception's message.
\<close>

datatype exception =
    ValueError string
  | NameError string
  | LibraryError string
  | KeyboardInterrupt
  | SystemExit string

fun isinstance_Exception :: "exception \<Rightarrow> bool" where
  "isinstance_Exception (ValueError _) = True"
| "isinstance_Exception (NameError _) = True"
| "isinstance_Exception (LibraryError _) = True"
| "isinstance_Exception KeyboardInterrupt = False"
| "isinstance_Exception (SystemExit _) = False"

fun str :: "exception \<Rightarrow> string" where
  "str (ValueError m) = m"
| "str (NameError m) = m"
| "str (LibraryError m) = m"
| "str KeyboardInterrupt = []"
| "str (SystemExit m) = m"

section \<open>Tables\<close>

text \<open>
  A pandas \<^verbatim>\<open>DataFrame\<close> as the formatter sees it: the column labels in order and the
  rows in index order. A cell is held as the JSON value that \<^verbatim>\<open>to_json\<close> writes for it
  (\<open>JNull\<close> for NaN, None and NaT). A frame with an index of three entries and no column
  is \<open>\<lparr>columns = [], rows = [[], [], []]\<rparr>\<close>.
\<close>

record dataframe =
  columns :: "string list"
  rows :: "json list list"

text \<open>\<^verbatim>\<open>len(df)\<close>: the length of the index.\<close>

definition len :: "dataframe \<Rightarrow> int" where
  "len df = int (length (rows df))"

text \<open>\<^verbatim>\<open>df.empty\<close>: true when any of the two axes has length 0.\<close>

definition empty_df :: "dataframe \<Rightarrow> bool" where
  "empty_df df = (rows df = [] \<or> columns df = [])"

text \<open>
  \<^verbatim>\<open>df.head(n)\<close> is \<^verbatim>\<open>df.iloc[:n]\<close>: the first \<open>n\<close> rows, and for a negative \<open>n\<close> all
  rows but the last \<open>- n\<close>. The result is a new frame with the same columns.
\<close>

definition head :: "dataframe \<Rightarrow> int \<Rightarrow> dataframe" where
  "head df n =
     df\<lparr>rows := take (nat (if 0 \<le> n then n else len df + n)) (rows df)\<rparr>"

text \<open>\<^verbatim>\<open>df.columns.tolist()\<close>.\<close>

definition columns_tolist :: "dataframe \<Rightarrow> json" where
  "columns_tolist df = JArr (map JStr (columns df))"

definition quoted :: "string \<Rightarrow> string" where
  "quoted s = [CHR 0x27] @ s @ [CHR 0x27]"

text \<open>
  \<^verbatim>\<open>json.loads(df.to_json(orient="records"))\<close>: one object per row, pairing the column
  labels with the row's cells. pandas refuses the orientation when two columns share a
  label and raises \<^verbatim>\<open>ValueError\<close>.
\<close>

definition to_json_records :: "dataframe \<Rightarrow> exception + json" where
  "to_json_records df =
     (if distinct (columns df)
      then Inr (JArr (map (\<lambda>r. JObj (zip (columns df) r)) (rows df)))
      else Inl (ValueError (''DataFrame columns must be unique for orient=''
                              @ quoted ''records'' @ ''.'')))"

section \<open>The response formatter\<close>

definition error_envelope :: "string \<Rightarrow> json" where
  "error_envelope msg = JObj [(''error'', JStr msg)]"

definition default_max_rows :: int where
  "default_max_rows = 50"

text \<open>
  \<^verbatim>\<open>format_dataframe_to_json(df, max_rows=50)\<close>, the same text in both files. The argument
  is \<open>None\<close> or a frame. When the frame is longer than the cap the local name \<^verbatim>\<open>df\<close>
  is rebound to its head, and every later read of \<^verbatim>\<open>df\<close> (the records, the columns and
  both counts) sees the shortened frame.
\<close>

definition format_dataframe_to_json :: "dataframe option \<Rightarrow> int \<Rightarrow> exception + json" where
  "format_dataframe_to_json df max_rows =
     (case df of
        None \<Rightarrow> Inr (error_envelope ''No data available'')
      | Some d \<Rightarrow>
          if empty_df d then Inr (error_envelope ''No data available'')
          else
            let (d', truncated) =
                  (if len d > max_rows then (head d max_rows, True) else (d, False))
            in (case to_json_records d' of
                  Inl e \<Rightarrow> Inl e
                | Inr data \<Rightarrow>
                    Inr (JObj [(''data'', data),
                               (''columns'', columns_tolist d'),
                               (''truncated'', JBool truncated),
                               (''total_rows'', JInt (len d')),
                               (''displayed_rows'', JInt (min max_rows (len d')))])))"

section \<open>The formatter over a store of objects\<close>

text \<open>
  Python passes references. To speak about what a call leaves behind, the same function
  is written once more over a store of frame objects: a reference is an address in the
  store, and \<^verbatim>\<open>df.head(max_rows)\<close> allocates a new frame at the next free address and
  returns its reference. Reading \<^verbatim>\<open>df.empty\<close>, \<^verbatim>\<open>len(df)\<close>, \<^verbatim>\<open>df.columns\<close> and
  \<^verbatim>\<open>df.to_json\<close> writes nothing. A reference handed to the function is live, that is
  below the length of the store.
\<close>

type_synonym ref = nat

type_synonym store = "dataframe list"

definition head_store :: "store \<Rightarrow> ref \<Rightarrow> int \<Rightarrow> store \<times> ref" where
  "head_store h r n = (h @ [head (h ! r) n], length h)"

definition format_dataframe_to_json_store ::
    "store \<Rightarrow> ref option \<Rightarrow> int \<Rightarrow> store \<times> (exception + json)" where
  "format_dataframe_to_json_store h df max_rows =
     (case df of
        None \<Rightarrow> (h, Inr (error_envelope ''No data available''))
      | Some r \<Rightarrow>
          if empty_df (h ! r) then (h, Inr (error_envelope ''No data available''))
          else
            let (h', r', truncated) =
                  (if len (h ! r) > max_rows
                   then (fst (head_store h r max_rows), snd (head_store h r max_rows), True)
                   else (h, r, False))
            in (h',
                (case to_json_records (h' ! r') of
                   Inl e \<Rightarrow> Inl e
                 | Inr data \<Rightarrow>
                     Inr (JObj [(''data'', data),
                                (''columns'', columns_tolist (h' ! r')),
                                (''truncated'', JBool truncated),
                                (''total_rows'', JInt (len (h' ! r'))),
                                (''displayed_rows'', JInt (min max_rows (len (h' ! r'))))]))))"

section \<open>Tool wrappers\<close>

text \<open>
  A call into the data library: the function's name with the positional and the keyword
  arguments it is given. The library is outside the repository; for one invocation it is
  a function from the call to what comes back, a frame (or \<open>None\<close>) or an exception.
\<close>

record call =
  func :: string
  args :: "string list"
  kwargs :: "(string \<times> string) list"

type_synonym library = "call \<Rightarrow> exception + dataframe option"

text \<open>
  \<^verbatim>\<open>except Exception as e: return json.dumps({"error": str(e)})\<close> around a body: the
  handler takes instances of \<^verbatim>\<open>Exception\<close>; any other exception leaves the function.
\<close>

definition except_Exception :: "exception + json \<Rightarrow> exception + json" where
  "except_Exception body =
     (case body of
        Inr j \<Rightarrow> Inr j
      | Inl e \<Rightarrow> if isinstance_Exception e then Inr (error_envelope (str e)) else Inl e)"

text \<open>
  The body shared by the wrappers:
  \<^verbatim>\<open>try: df = ak.f(...); return format_dataframe_to_json(df)\<close> under the handler above.
  A wrapper returns the library calls it made, in order, next to its outcome
  (\<open>Inr\<close> the document returned, \<open>Inl\<close> an exception that leaves the wrapper).
\<close>

definition fetch_and_format :: "library \<Rightarrow> call \<Rightarrow> call list \<times> (exception + json)" where
  "fetch_and_format ak c =
     ([c], except_Exception
             (case ak c of
                Inl e \<Rightarrow> Inl e
              | Inr df \<Rightarrow> format_dataframe_to_json df default_max_rows))"

text \<open>\<^verbatim>\<open>stock_sse_summary()\<close> calls \<^verbatim>\<open>ak.stock_sse_summary()\<close> (both files).\<close>

definition stock_sse_summary :: "library \<Rightarrow> call list \<times> (exception + json)" where
  "stock_sse_summary ak =
     fetch_and_format ak \<lparr>func = ''stock_sse_summary'', args = [], kwargs = []\<rparr>"

text \<open>\<^verbatim>\<open>stock_szse_summary(date)\<close> calls \<^verbatim>\<open>ak.stock_szse_summary(date=date)\<close> (both files).\<close>

definition stock_szse_summary :: "library \<Rightarrow> string \<Rightarrow> call list \<times> (exception + json)" where
  "stock_szse_summary ak date =
     fetch_and_format ak
       \<lparr>func = ''stock_szse_summary'', args = [], kwargs = [(''date'', date)]\<rparr>"

text \<open>
  \<^verbatim>\<open>stock_hk_hist(symbol, period, adjust, start_date, end_date)\<close> of \<^verbatim>\<open>server.py\<close>
  calls \<^verbatim>\<open>ak.stock_hk_hist()\<close>, with no argument.
\<close>

definition stock_hk_hist ::
    "library \<Rightarrow> string \<Rightarrow> string \<Rightarrow> string \<Rightarrow> string \<Rightarrow> string
       \<Rightarrow> call list \<times> (exception + json)" where
  "stock_hk_hist ak symbol period adjust start_date end_date =
     fetch_and_format ak \<lparr>func = ''stock_hk_hist'', args = [], kwargs = []\<rparr>"

text \<open>
  \<^verbatim>\<open>stock_hk_daily()\<close> of \<^verbatim>\<open>server.py\<close> has no parameter and evaluates
  \<^verbatim>\<open>ak.stock_hk_daily(symbol=symbol)\<close>: the name \<^verbatim>\<open>symbol\<close> is unbound, so evaluating
  the argument raises \<^verbatim>\<open>NameError\<close> before any call is made.
\<close>

definition stock_hk_daily :: "library \<Rightarrow> call list \<times> (exception + json)" where
  "stock_hk_daily ak =
     ([], except_Exception
            (Inl (NameError (''name '' @ quoted ''symbol'' @ '' is not defined''))))"

section \<open>Properties of the response formatter\<close>

subsection \<open>The four outcomes\<close>

lemma format_None:
  "format_dataframe_to_json None max_rows = Inr (error_envelope ''No data available'')"
  by (simp add: format_dataframe_to_json_def)

lemma format_empty:
  "empty_df d \<Longrightarrow>
     format_dataframe_to_json (Some d) max_rows = Inr (error_envelope ''No data available'')"
  by (simp add: format_dataframe_to_json_def)

lemma columns_head: "columns (head d n) = columns d"
  by (simp add: head_def)

lemma format_duplicate_columns:
  assumes "\<not> empty_df d" and "\<not> distinct (columns d)"
  shows "\<exists>m. format_dataframe_to_json (Some d) max_rows = Inl (ValueError m)"
  using assms
  by (simp add: format_dataframe_to_json_def to_json_records_def columns_head)

lemma format_not_truncated:
  assumes "\<not> empty_df d" and "distinct (columns d)" and "len d \<le> max_rows"
  shows "format_dataframe_to_json (Some d) max_rows =
           Inr (JObj [(''data'', JArr (map (\<lambda>r. JObj (zip (columns d) r)) (rows d))),
                      (''columns'', JArr (map JStr (columns d))),
                      (''truncated'', JBool False),
                      (''total_rows'', JInt (len d)),
                      (''displayed_rows'', JInt (len d))])"
  using assms
  by (simp add: format_dataframe_to_json_def to_json_records_def columns_tolist_def)

lemma format_truncated:
  assumes "\<not> empty_df d" and "distinct (columns d)" and "len d > max_rows"
  shows "format_dataframe_to_json (Some d) max_rows =
           Inr (JObj [(''data'', JArr (map (\<lambda>r. JObj (zip (columns d) r))
                                        (rows (head d max_rows)))),
                      (''columns'', JArr (map JStr (columns d))),
                      (''truncated'', JBool True),
                      (''total_rows'', JInt (len (head d max_rows))),
                      (''displayed_rows'', JInt (min max_rows (len (head d max_rows))))])"
  using assms
  by (simp add: format_dataframe_to_json_def to_json_records_def columns_tolist_def
      columns_head)

lemma rows_head_nonneg: "0 \<le> n \<Longrightarrow> rows (head d n) = take (nat n) (rows d)"
  by (simp add: head_def)

lemma len_head_nonneg: "0 \<le> n \<Longrightarrow> len (head d n) = min n (len d)"
  by (auto simp: head_def len_def min_def)

subsection \<open>Absent and empty input\<close>

text \<open>
  C5. When the input is \<open>None\<close> or a table with zero rows, the formatter returns exactly
  the object \<^verbatim>\<open>{"error": "No data available"}\<close>, whatever the cap.
\<close>

theorem no_data_error_envelope:
  "format_dataframe_to_json None max_rows = Inr (JObj [(''error'', JStr ''No data available'')])
   \<and> (rows d = [] \<longrightarrow>
        format_dataframe_to_json (Some d) max_rows
          = Inr (JObj [(''error'', JStr ''No data available'')]))"
  by (simp add: format_None format_empty empty_df_def error_envelope_def)

theorem no_data_error_envelope_witness:
  "rows \<lparr>columns = [''date'', ''close''], rows = []\<rparr> = []
   \<and> format_dataframe_to_json None 50 = Inr (JObj [(''error'', JStr ''No data available'')])
   \<and> format_dataframe_to_json (Some \<lparr>columns = [''date'', ''close''], rows = []\<rparr>) 50
        = Inr (JObj [(''error'', JStr ''No data available'')])"
  using no_data_error_envelope [of 50 "\<lparr>columns = [''date'', ''close''], rows = []\<rparr>"]
  by simp

subsection \<open>Tables within the cap\<close>

text \<open>
  Against C6 for a table whose columns share a label.
  One row under the labels \<open>a\<close>, \<open>a\<close>: the table is not empty and within the default
  cap, and \<^verbatim>\<open>to_json\<close> raises \<^verbatim>\<open>ValueError\<close>, so the formatter returns no envelope.
\<close>

theorem duplicate_labels_within_cap_raise:
  "\<not> empty_df \<lparr>columns = [''a'', ''a''], rows = [[JInt 1, JInt 2]]\<rparr>
   \<and> len \<lparr>columns = [''a'', ''a''], rows = [[JInt 1, JInt 2]]\<rparr> \<le> 50
   \<and> format_dataframe_to_json
         (Some \<lparr>columns = [''a'', ''a''], rows = [[JInt 1, JInt 2]]\<rparr>) 50
       = Inl (ValueError (''DataFrame columns must be unique for orient=''
                            @ quoted ''records'' @ ''.''))"
  by (simp add: format_dataframe_to_json_def empty_df_def len_def to_json_records_def)

text \<open>
  C6, for uniquely labelled columns.
  A non-empty table (\<^verbatim>\<open>df.empty\<close> is false) with uniquely labelled columns and
  \<open>n \<le> max_rows\<close> rows yields a success envelope with \<open>truncated = false\<close>,
  \<open>displayed_rows = n\<close>, \<open>total_rows = n\<close> and a data list of exactly \<open>n\<close> entries,
  one per row and in row order.
\<close>

theorem within_cap_envelope:
  assumes "\<not> empty_df d" and "distinct (columns d)" and "len d \<le> max_rows"
  shows "\<exists>env data.
           format_dataframe_to_json (Some d) max_rows = Inr env
         \<and> get ''truncated'' env = Some (JBool False)
         \<and> get ''displayed_rows'' env = Some (JInt (len d))
         \<and> get ''total_rows'' env = Some (JInt (len d))
         \<and> get ''data'' env = Some (JArr data)
         \<and> int (length data) = len d
         \<and> data = map (\<lambda>r. JObj (zip (columns d) r)) (rows d)"
  using format_not_truncated [OF assms] by (simp add: len_def)

theorem within_cap_envelope_witness:
  "\<not> empty_df \<lparr>columns = [''date'', ''close''],
                rows = [[JStr ''2024-03-05'', JDec 1052 (- 2)],
                        [JStr ''2024-03-06'', JNull]]\<rparr>
   \<and> distinct [''date'', ''close'']
   \<and> (2::int) \<le> 50
   \<and> (\<exists>env. format_dataframe_to_json
               (Some \<lparr>columns = [''date'', ''close''],
                      rows = [[JStr ''2024-03-05'', JDec 1052 (- 2)],
                              [JStr ''2024-03-06'', JNull]]\<rparr>) 50 = Inr env
            \<and> get ''truncated'' env = Some (JBool False)
            \<and> get ''displayed_rows'' env = Some (JInt 2)
            \<and> get ''total_rows'' env = Some (JInt 2)
            \<and> get ''data'' env
                = Some (JArr [JObj [(''date'', JStr ''2024-03-05''), (''close'', JDec 1052 (- 2))],
                              JObj [(''date'', JStr ''2024-03-06''), (''close'', JNull)]]))"
  using within_cap_envelope
    [of "\<lparr>columns = [''date'', ''close''],
          rows = [[JStr ''2024-03-05'', JDec 1052 (- 2)], [JStr ''2024-03-06'', JNull]]\<rparr>" 50]
  by (simp add: empty_df_def len_def)

subsection \<open>Column labels\<close>

lemma format_Some_cases:
  assumes "format_dataframe_to_json (Some d) max_rows = Inr env"
      and "env \<noteq> error_envelope ''No data available''"
  shows "\<not> empty_df d \<and> distinct (columns d)"
proof -
  have ne: "\<not> empty_df d"
    using assms format_empty [of d max_rows] by auto
  have "distinct (columns d)"
  proof (rule ccontr)
    assume "\<not> distinct (columns d)"
    from format_duplicate_columns [OF ne this, of max_rows] assms(1) show False by auto
  qed
  with ne show ?thesis by simp
qed



subsection \<open>Tables beyond the cap\<close>

text \<open>
  C1. The scenario of the specification: 120 rows, columns \<open>date\<close> and \<open>close\<close>, the
  default cap. The envelope is truncated, shows 50 rows and keeps the columns, and its
  \<open>total_rows\<close> is 50: the count is read after the table was cut, so the 120 of the
  source table is not reported.
\<close>

theorem total_rows_of_120_row_table:
  "\<exists>env data.
      format_dataframe_to_json
        (Some \<lparr>columns = [''date'', ''close''],
               rows = map (\<lambda>i. [JInt (int i), JInt (int i)]) [0..<120]\<rparr>)
        default_max_rows = Inr env
    \<and> get ''truncated'' env = Some (JBool True)
    \<and> get ''displayed_rows'' env = Some (JInt 50)
    \<and> get ''columns'' env = Some (JArr [JStr ''date'', JStr ''close''])
    \<and> get ''data'' env = Some (JArr data)
    \<and> data = map (\<lambda>i. JObj [(''date'', JInt (int i)), (''close'', JInt (int i))]) [0..<50]
    \<and> get ''total_rows'' env = Some (JInt 50)"
  by (simp add: format_dataframe_to_json_def default_max_rows_def empty_df_def len_def
      head_def to_json_records_def columns_tolist_def take_map)

text \<open>
  C2. Three rows under a cap of 2: the envelope says \<open>truncated = true\<close> while the
  \<open>total_rows\<close> it reports is 2, which is not greater than the cap.
\<close>

theorem truncated_with_total_rows_at_cap:
  "format_dataframe_to_json
      (Some \<lparr>columns = [''code''], rows = [[JStr ''600000''], [JStr ''600004''], [JStr ''600006'']]\<rparr>) 2
     = Inr (JObj [(''data'', JArr [JObj [(''code'', JStr ''600000'')],
                                   JObj [(''code'', JStr ''600004'')]]),
                  (''columns'', JArr [JStr ''code'']),
                  (''truncated'', JBool True),
                  (''total_rows'', JInt 2),
                  (''displayed_rows'', JInt 2)])"
  by (simp add: format_dataframe_to_json_def empty_df_def len_def head_def
      to_json_records_def columns_tolist_def)

subsection \<open>The counts of a success envelope\<close>

text \<open>
  Against C9 for a negative cap.
  Under a cap of \<open>-1\<close> the head of a two-row table is its first row: the envelope
  reports \<open>total_rows = 1\<close> next to \<open>displayed_rows = -1\<close>, two different numbers, and
  the total is above the cap.
\<close>

theorem negative_cap_counts_differ:
  "format_dataframe_to_json
      (Some \<lparr>columns = [''code''], rows = [[JStr ''600000''], [JStr ''600004'']]\<rparr>) (- 1)
     = Inr (JObj [(''data'', JArr [JObj [(''code'', JStr ''600000'')]]),
                  (''columns'', JArr [JStr ''code'']),
                  (''truncated'', JBool True),
                  (''total_rows'', JInt 1),
                  (''displayed_rows'', JInt (- 1))])
   \<and> JInt 1 \<noteq> JInt (- 1) \<and> \<not> (1::int) \<le> - 1"
  by (simp add: format_dataframe_to_json_def empty_df_def len_def head_def
      to_json_records_def columns_tolist_def)

text \<open>
  C9, for a cap that is not negative. In every success envelope \<open>total_rows\<close> and
  \<open>displayed_rows\<close> are both the length of the data list, and that length is at most
  the cap. Two tables longer than the cap with the same columns and the same first
  \<open>max_rows\<close> rows get the same response, so the response does not tell how many rows
  the source table had.
\<close>

theorem counts_agree_under_nonnegative_cap:
  assumes "0 \<le> max_rows"
  shows "(format_dataframe_to_json (Some d) max_rows = Inr env
            \<and> env \<noteq> error_envelope ''No data available''
          \<longrightarrow> (\<exists>data. get ''data'' env = Some (JArr data)
                 \<and> get ''total_rows'' env = Some (JInt (int (length data)))
                 \<and> get ''displayed_rows'' env = Some (JInt (int (length data)))
                 \<and> int (length data) \<le> max_rows))
       \<and> (columns d' = columns d \<and> max_rows < len d \<and> max_rows < len d'
            \<and> take (nat max_rows) (rows d') = take (nat max_rows) (rows d)
          \<longrightarrow> format_dataframe_to_json (Some d') max_rows
                = format_dataframe_to_json (Some d) max_rows)"
proof (intro conjI impI)
  assume a: "format_dataframe_to_json (Some d) max_rows = Inr env
               \<and> env \<noteq> error_envelope ''No data available''"
  then have ne: "\<not> empty_df d" and di: "distinct (columns d)"
    using format_Some_cases [of d max_rows env] by simp_all
  show "\<exists>data. get ''data'' env = Some (JArr data)
          \<and> get ''total_rows'' env = Some (JInt (int (length data)))
          \<and> get ''displayed_rows'' env = Some (JInt (int (length data)))
          \<and> int (length data) \<le> max_rows"
  proof (cases "len d \<le> max_rows")
    case True
    from format_not_truncated [OF ne di True] a show ?thesis
      using True by (auto simp: len_def)
  next
    case False
    then have gt: "len d > max_rows" by simp
    have "int (length (rows (head d max_rows))) = max_rows"
      using len_head_nonneg [OF assms, of d] gt by (simp add: len_def)
    with format_truncated [OF ne di gt] a show ?thesis
      by (auto simp: len_def)
  qed
next
  assume b: "columns d' = columns d \<and> max_rows < len d \<and> max_rows < len d'
               \<and> take (nat max_rows) (rows d') = take (nat max_rows) (rows d)"
  then have h: "head d' max_rows = head d max_rows"
    using assms by (simp add: head_def)
  have e: "empty_df d' = empty_df d"
    using b assms by (auto simp: empty_df_def len_def)
  show "format_dataframe_to_json (Some d') max_rows
          = format_dataframe_to_json (Some d) max_rows"
    using b h e by (simp add: format_dataframe_to_json_def)
qed

theorem counts_agree_under_nonnegative_cap_witness:
  "(0::int) \<le> 2
   \<and> format_dataframe_to_json
        (Some \<lparr>columns = [''code''],
               rows = [[JStr ''600000''], [JStr ''600004''], [JStr ''600006'']]\<rparr>) 2
       = Inr (JObj [(''data'', JArr [JObj [(''code'', JStr ''600000'')],
                                     JObj [(''code'', JStr ''600004'')]]),
                    (''columns'', JArr [JStr ''code'']),
                    (''truncated'', JBool True),
                    (''total_rows'', JInt 2),
                    (''displayed_rows'', JInt 2)])
   \<and> (2::int) < len \<lparr>columns = [''code''],
                      rows = [[JStr ''600000''], [JStr ''600004''], [JStr ''600006'']]\<rparr>
   \<and> (2::int) < len \<lparr>columns = [''code''],
                      rows = [[JStr ''600000''], [JStr ''600004''], [JStr ''600008''],
                              [JStr ''600009'']]\<rparr>
   \<and> format_dataframe_to_json
        (Some \<lparr>columns = [''code''],
               rows = [[JStr ''600000''], [JStr ''600004''], [JStr ''600008''],
                       [JStr ''600009'']]\<rparr>) 2
       = format_dataframe_to_json
           (Some \<lparr>columns = [''code''],
                  rows = [[JStr ''600000''], [JStr ''600004''], [JStr ''600006'']]\<rparr>) 2"
  using counts_agree_under_nonnegative_cap
    [of 2
        "\<lparr>columns = [''code''],
          rows = [[JStr ''600000''], [JStr ''600004''], [JStr ''600006'']]\<rparr>"
        "JObj [(''data'', JArr [JObj [(''code'', JStr ''600000'')],
                                JObj [(''code'', JStr ''600004'')]]),
               (''columns'', JArr [JStr ''code'']),
               (''truncated'', JBool True),
               (''total_rows'', JInt 2),
               (''displayed_rows'', JInt 2)]"
        "\<lparr>columns = [''code''],
          rows = [[JStr ''600000''], [JStr ''600004''], [JStr ''600008''],
                  [JStr ''600009'']]\<rparr>"]
  by (simp add: format_dataframe_to_json_def empty_df_def len_def head_def
      to_json_records_def columns_tolist_def error_envelope_def)

subsection \<open>When the error envelope is returned\<close>

text \<open>
  Against C10 with emptiness read as having zero rows.
  A table with two rows and no column: \<^verbatim>\<open>df.empty\<close> holds, so the formatter answers
  with the error envelope although the table has rows.
\<close>

theorem rows_without_columns_error_envelope:
  "format_dataframe_to_json (Some \<lparr>columns = [], rows = [[], []]\<rparr>) 50
     = Inr (JObj [(''error'', JStr ''No data available'')])
   \<and> length (rows \<lparr>columns = [], rows = [[], []]\<rparr>) = 2"
  by (simp add: format_dataframe_to_json_def empty_df_def error_envelope_def)

text \<open>
  C10, with emptiness as the code tests it. For every input and every cap, zero and
  negative caps included, the error envelope is returned if and only if the input is
  \<open>None\<close> or \<^verbatim>\<open>df.empty\<close> holds (no row or no column). A table with at least one row
  and one column, uniquely labelled, always gets a success envelope with the five keys;
  under a cap of zero its data list is empty.
\<close>

theorem error_envelope_iff_absent_or_empty:
  "(format_dataframe_to_json df max_rows = Inr (JObj [(''error'', JStr ''No data available'')]))
     = (case df of None \<Rightarrow> True | Some d \<Rightarrow> empty_df d)
   \<and> (\<not> empty_df d \<and> distinct (columns d)
      \<longrightarrow> (\<exists>env data. format_dataframe_to_json (Some d) max_rows = Inr env
             \<and> keys env = [''data'', ''columns'', ''truncated'', ''total_rows'',
                            ''displayed_rows'']
             \<and> get ''data'' env = Some (JArr data)
             \<and> (max_rows = 0 \<longrightarrow> data = [])))"
proof (intro conjI impI)
  show "(format_dataframe_to_json df max_rows
           = Inr (JObj [(''error'', JStr ''No data available'')]))
          = (case df of None \<Rightarrow> True | Some d \<Rightarrow> empty_df d)"
  proof (cases df)
    case None
    then show ?thesis by (simp add: format_None error_envelope_def)
  next
    case (Some t)
    show ?thesis
    proof (cases "empty_df t")
      case True
      with Some show ?thesis by (simp add: format_empty error_envelope_def)
    next
      case False
      have "format_dataframe_to_json (Some t) max_rows
              \<noteq> Inr (JObj [(''error'', JStr ''No data available'')])"
      proof (cases "distinct (columns t)")
        case di: True
        show ?thesis
        proof (cases "len t \<le> max_rows")
          case True
          from format_not_truncated [OF False di True] show ?thesis by simp
        next
          case nle: False
          then have "len t > max_rows" by simp
          from format_truncated [OF False di this] show ?thesis by simp
        qed
      next
        case nd: False
        from format_duplicate_columns [OF False nd, of max_rows] show ?thesis by auto
      qed
      with Some False show ?thesis by simp
    qed
  qed
next
  assume a: "\<not> empty_df d \<and> distinct (columns d)"
  then have ne: "\<not> empty_df d" and di: "distinct (columns d)" by simp_all
  show "\<exists>env data. format_dataframe_to_json (Some d) max_rows = Inr env
          \<and> keys env = [''data'', ''columns'', ''truncated'', ''total_rows'',
                         ''displayed_rows'']
          \<and> get ''data'' env = Some (JArr data)
          \<and> (max_rows = 0 \<longrightarrow> data = [])"
  proof (cases "len d \<le> max_rows")
    case True
    have "max_rows \<noteq> 0" using True ne by (auto simp: empty_df_def len_def)
    with format_not_truncated [OF ne di True] show ?thesis by simp
  next
    case False
    then have "len d > max_rows" by simp
    from format_truncated [OF ne di this] show ?thesis by (simp add: head_def)
  qed
qed

theorem error_envelope_iff_absent_or_empty_witness:
  "\<not> empty_df \<lparr>columns = [''code''], rows = [[JStr ''600000''], [JStr ''600004'']]\<rparr>
   \<and> distinct (columns \<lparr>columns = [''code''],
                         rows = [[JStr ''600000''], [JStr ''600004'']]\<rparr>)
   \<and> format_dataframe_to_json None 0 = Inr (JObj [(''error'', JStr ''No data available'')])
   \<and> format_dataframe_to_json
        (Some \<lparr>columns = [''code''], rows = [[JStr ''600000''], [JStr ''600004'']]\<rparr>) 0
       = Inr (JObj [(''data'', JArr []),
                    (''columns'', JArr [JStr ''code'']),
                    (''truncated'', JBool True),
                    (''total_rows'', JInt 0),
                    (''displayed_rows'', JInt 0)])"
  using error_envelope_iff_absent_or_empty
    [of None 0 "\<lparr>columns = [''code''], rows = [[JStr ''600000''], [JStr ''600004'']]\<rparr>"]
  by (simp add: format_dataframe_to_json_def empty_df_def len_def head_def
      to_json_records_def columns_tolist_def error_envelope_def)

section \<open>Properties of the tool wrappers\<close>

lemma stock_szse_summary_passes_date:
  "fst (stock_szse_summary ak date)
     = [\<lparr>func = ''stock_szse_summary'', args = [], kwargs = [(''date'', date)]\<rparr>]"
  by (simp add: stock_szse_summary_def fetch_and_format_def)

lemma wrapper_returns_formatter_output:
  "ak c = Inr df \<Longrightarrow> format_dataframe_to_json df default_max_rows = Inr j \<Longrightarrow>
     fetch_and_format ak c = ([c], Inr j)"
  by (simp add: fetch_and_format_def except_Exception_def)

text \<open>
  C3. \<^verbatim>\<open>stock_hk_hist\<close> makes one library call, and that call carries no argument:
  whatever symbol, period, adjustment and dates the caller supplies, the call and so the
  wrapper's answer are those of the defaults. \<^verbatim>\<open>stock_hk_daily\<close> makes no library
  call at all and answers with the error envelope of its \<^verbatim>\<open>NameError\<close>.
\<close>

theorem stock_hk_hist_drops_parameters:
  "fst (stock_hk_hist ak symbol period adjust start_date end_date)
     = [\<lparr>func = ''stock_hk_hist'', args = [], kwargs = []\<rparr>]
   \<and> stock_hk_hist ak ''00700'' ''weekly'' ''qfq'' ''20240101'' ''20240131''
       = stock_hk_hist ak ''01611'' ''daily'' []
           ''1979-09-01 09:32:00'' ''2222-01-01 09:32:00''
   \<and> stock_hk_daily ak
       = ([], Inr (JObj [(''error'',
                          JStr (''name '' @ quoted ''symbol'' @ '' is not defined''))]))"
  by (simp add: stock_hk_hist_def stock_hk_daily_def fetch_and_format_def
      except_Exception_def error_envelope_def)

text \<open>
  Against C4 for exceptions outside \<^verbatim>\<open>Exception\<close>.
  A library call interrupted from the keyboard: \<^verbatim>\<open>KeyboardInterrupt\<close> is no instance of
  \<^verbatim>\<open>Exception\<close>, the handler does not take it and it leaves \<^verbatim>\<open>stock_sse_summary\<close>.
\<close>

theorem keyboard_interrupt_leaves_wrapper:
  "snd (stock_sse_summary (\<lambda>c. Inl KeyboardInterrupt)) = Inl KeyboardInterrupt"
  by (simp add: stock_sse_summary_def fetch_and_format_def except_Exception_def)

text \<open>
  C4, with the handler's class filter. An exception that is an instance of
  \<^verbatim>\<open>Exception\<close>, raised by the library call or by the formatter, is caught in the
  wrapper, which returns the object with the single key \<open>error\<close> and the exception's
  string as its value. An exception raised by the library call that is no instance of
  \<^verbatim>\<open>Exception\<close> is not caught and leaves the wrapper. No instance of
  \<^verbatim>\<open>Exception\<close> ever leaves the wrapper.
\<close>

theorem wrapper_catches_Exception_instances:
  "(ak c = Inl e \<and> isinstance_Exception e
      \<longrightarrow> snd (fetch_and_format ak c) = Inr (JObj [(''error'', JStr (str e))]))
   \<and> (ak c = Inr df \<and> format_dataframe_to_json df default_max_rows = Inl e
        \<and> isinstance_Exception e
      \<longrightarrow> snd (fetch_and_format ak c) = Inr (JObj [(''error'', JStr (str e))]))
   \<and> (ak c = Inl e \<and> \<not> isinstance_Exception e
      \<longrightarrow> snd (fetch_and_format ak c) = Inl e)
   \<and> (snd (fetch_and_format ak c) = Inl e' \<longrightarrow> \<not> isinstance_Exception e')"
proof (intro conjI impI)
  assume "ak c = Inl e \<and> isinstance_Exception e"
  then show "snd (fetch_and_format ak c) = Inr (JObj [(''error'', JStr (str e))])"
    by (simp add: fetch_and_format_def except_Exception_def error_envelope_def)
next
  assume "ak c = Inr df \<and> format_dataframe_to_json df default_max_rows = Inl e
            \<and> isinstance_Exception e"
  then show "snd (fetch_and_format ak c) = Inr (JObj [(''error'', JStr (str e))])"
    by (simp add: fetch_and_format_def except_Exception_def error_envelope_def)
next
  assume "ak c = Inl e \<and> \<not> isinstance_Exception e"
  then show "snd (fetch_and_format ak c) = Inl e"
    by (simp add: fetch_and_format_def except_Exception_def)
next
  assume esc: "snd (fetch_and_format ak c) = Inl e'"
  then show "\<not> isinstance_Exception e'"
    by (auto simp: fetch_and_format_def except_Exception_def split: sum.splits if_splits)
qed

theorem wrapper_catches_Exception_instances_witness:
  "isinstance_Exception (LibraryError ''connection timed out'')
   \<and> stock_sse_summary (\<lambda>c. Inl (LibraryError ''connection timed out''))
       = ([\<lparr>func = ''stock_sse_summary'', args = [], kwargs = []\<rparr>],
          Inr (JObj [(''error'', JStr ''connection timed out'')]))
   \<and> format_dataframe_to_json (Some \<lparr>columns = [''a'', ''a''], rows = [[JInt 1, JInt 2]]\<rparr>)
         default_max_rows
       = Inl (ValueError (''DataFrame columns must be unique for orient=''
                            @ quoted ''records'' @ ''.''))
   \<and> snd (stock_sse_summary
            (\<lambda>c. Inr (Some \<lparr>columns = [''a'', ''a''], rows = [[JInt 1, JInt 2]]\<rparr>)))
       = Inr (JObj [(''error'', JStr (''DataFrame columns must be unique for orient=''
                                        @ quoted ''records'' @ ''.''))])
   \<and> snd (stock_sse_summary (\<lambda>c. Inl (SystemExit ''1''))) = Inl (SystemExit ''1'')
   \<and> \<not> isinstance_Exception (SystemExit ''1'')"
  using
    wrapper_catches_Exception_instances
      [of "\<lambda>c. Inl (LibraryError ''connection timed out'')"
          "\<lparr>func = ''stock_sse_summary'', args = [], kwargs = []\<rparr>"
          "LibraryError ''connection timed out''"]
    wrapper_catches_Exception_instances
      [of "\<lambda>c. Inr (Some \<lparr>columns = [''a'', ''a''], rows = [[JInt 1, JInt 2]]\<rparr>)"
          "\<lparr>func = ''stock_sse_summary'', args = [], kwargs = []\<rparr>"
          "ValueError (''DataFrame columns must be unique for orient=''
                         @ quoted ''records'' @ ''.'')"
          "Some \<lparr>columns = [''a'', ''a''], rows = [[JInt 1, JInt 2]]\<rparr>"]
    wrapper_catches_Exception_instances
      [of "\<lambda>c. Inl (SystemExit ''1'')"
          "\<lparr>func = ''stock_sse_summary'', args = [], kwargs = []\<rparr>"
          "SystemExit ''1''" _ "SystemExit ''1''"]
  by (simp add: stock_sse_summary_def fetch_and_format_def except_Exception_def
      error_envelope_def format_dataframe_to_json_def to_json_records_def empty_df_def
      len_def default_max_rows_def)

section \<open>Purity of the response formatter\<close>

lemma format_store_value:
  assumes "case df of None \<Rightarrow> True | Some r \<Rightarrow> r < length h"
  shows "snd (format_dataframe_to_json_store h df max_rows)
           = format_dataframe_to_json (map_option (\<lambda>r. h ! r) df) max_rows"
  using assms
  by (auto simp: format_dataframe_to_json_store_def format_dataframe_to_json_def
      head_store_def split: option.splits sum.splits)

lemma format_store_frame:
  assumes "case df of None \<Rightarrow> True | Some r \<Rightarrow> r < length h"
  shows "take (length h) (fst (format_dataframe_to_json_store h df max_rows)) = h"
  using assms
  by (auto simp: format_dataframe_to_json_store_def head_store_def split: option.splits)

text \<open>
  C8. A call of the formatter leaves every object of the store as it was (it only adds
  the head it allocates), its document is the value-level function of the table and the
  cap alone, and a second call on the same reference with the same cap, made after the
  first, returns the same document.
\<close>

theorem formatter_is_pure:
  assumes "case df of None \<Rightarrow> True | Some r \<Rightarrow> r < length h"
  shows "take (length h) (fst (format_dataframe_to_json_store h df max_rows)) = h
       \<and> snd (format_dataframe_to_json_store h df max_rows)
           = format_dataframe_to_json (map_option (\<lambda>r. h ! r) df) max_rows
       \<and> snd (format_dataframe_to_json_store
                (fst (format_dataframe_to_json_store h df max_rows)) df max_rows)
           = snd (format_dataframe_to_json_store h df max_rows)"
proof -
  let ?h' = "fst (format_dataframe_to_json_store h df max_rows)"
  have fr: "take (length h) ?h' = h" by (rule format_store_frame [OF assms])
  have le: "length h \<le> length ?h'"
    by (auto simp: format_dataframe_to_json_store_def head_store_def split: option.splits)
  have live: "case df of None \<Rightarrow> True | Some r \<Rightarrow> r < length ?h'"
    using assms le by (auto split: option.splits)
  have same: "map_option (\<lambda>r. ?h' ! r) df = map_option (\<lambda>r. h ! r) df"
  proof (cases df)
    case None
    then show ?thesis by simp
  next
    case (Some r)
    with assms have "r < length h" by simp
    then have "?h' ! r = take (length h) ?h' ! r" by simp
    with fr Some show ?thesis by simp
  qed
  show ?thesis
    using fr format_store_value [OF assms, of max_rows]
      format_store_value [OF live, of max_rows] same
    by simp
qed

theorem formatter_is_pure_witness:
  "(0::nat) < length [\<lparr>columns = [''code''],
                       rows = [[JStr ''600000''], [JStr ''600004''], [JStr ''600006'']]\<rparr>]
   \<and> fst (format_dataframe_to_json_store
            [\<lparr>columns = [''code''],
              rows = [[JStr ''600000''], [JStr ''600004''], [JStr ''600006'']]\<rparr>] (Some 0) 2)
       = [\<lparr>columns = [''code''],
           rows = [[JStr ''600000''], [JStr ''600004''], [JStr ''600006'']]\<rparr>,
          \<lparr>columns = [''code''], rows = [[JStr ''600000''], [JStr ''600004'']]\<rparr>]
   \<and> snd (format_dataframe_to_json_store
            (fst (format_dataframe_to_json_store
                    [\<lparr>columns = [''code''],
                      rows = [[JStr ''600000''], [JStr ''600004''], [JStr ''600006'']]\<rparr>]
                    (Some 0) 2)) (Some 0) 2)
       = Inr (JObj [(''data'', JArr [JObj [(''code'', JStr ''600000'')],
                                     JObj [(''code'', JStr ''600004'')]]),
                    (''columns'', JArr [JStr ''code'']),
                    (''truncated'', JBool True),
                    (''total_rows'', JInt 2),
                    (''displayed_rows'', JInt 2)])"
  using formatter_is_pure
    [where df = "Some 0" and max_rows = 2
       and h = "[\<lparr>columns = [''code''],
                  rows = [[JStr ''600000''], [JStr ''600004''], [JStr ''600006'']]\<rparr>]"]
  by (simp add: format_dataframe_to_json_store_def head_store_def
      format_dataframe_to_json_def empty_df_def len_def head_def to_json_records_def
      columns_tolist_def)

end
